theory Spec2Isabelle
  imports Main "HOL-Library.Sublist"
begin

section \<open>The strings package, as far as the controller uses it\<close>

text \<open>
  Go strings are byte sequences; they are modelled as \<open>string\<close> (a list of \<open>char\<close>).
  \<open>HasPrefix\<close>, \<open>TrimPrefix\<close>, \<open>Index\<close> and \<open>Contains\<close> follow the Go standard library:
  \<open>Index\<close> is the position of the first occurrence of the substring, or \<open>-1\<close>, and
  \<open>Contains s sub\<close> is \<open>Index s sub \<ge> 0\<close>.
\<close>

fun HasPrefix :: "string \<Rightarrow> string \<Rightarrow> bool" where
  "HasPrefix s [] = True"
| "HasPrefix [] (p # ps) = False"
| "HasPrefix (c # s) (p # ps) = (c = p \<and> HasPrefix s ps)"

definition TrimPrefix :: "string \<Rightarrow> string \<Rightarrow> string" where
  "TrimPrefix s p = (if HasPrefix s p then drop (length p) s else s)"

fun Index :: "string \<Rightarrow> string \<Rightarrow> int" where
  "Index [] sub = (if sub = [] then 0 else - 1)"
| "Index (c # s) sub =
     (if HasPrefix (c # s) sub then 0
      else (let i = Index s sub in if i < 0 then - 1 else i + 1))"

definition Contains :: "string \<Rightarrow> string \<Rightarrow> bool" where
  "Contains s sub = (0 \<le> Index s sub)"

text \<open>The line feed that ends every line of the generated YAML.\<close>

definition nl :: string where
  "nl = [CHR 0x0A]"

text \<open>
  \<open>fmt.Sprintf("%d", n)\<close> for a length or a counter (never negative): the decimal digits
  of \<open>n\<close>.
\<close>

definition digit :: "nat \<Rightarrow> char" where
  "digit n = ''0123456789'' ! n"

function Itoa :: "nat \<Rightarrow> string" where
  "Itoa n = (if n < 10 then [digit n] else Itoa (n div 10) @ [digit (n mod 10)])"
  by pat_completeness auto
termination
  by (relation "measure id") auto

declare Itoa.simps [simp del]

section \<open>extractUsernameFromURL\<close>

text \<open>
  The source, with \<open>idx > 0\<close> as its test for both delimiters:
  \<^verbatim>\<open>
  if !strings.HasPrefix(dbURL, "postgres://") && !strings.HasPrefix(dbURL, "postgresql://") { return "" }
  urlWithoutProtocol := strings.TrimPrefix(dbURL, "postgres://")
  urlWithoutProtocol = strings.TrimPrefix(urlWithoutProtocol, "postgresql://")
  if idx := strings.Index(urlWithoutProtocol, ":"); idx > 0 { return urlWithoutProtocol[:idx] }
  if idx := strings.Index(urlWithoutProtocol, "@"); idx > 0 { return urlWithoutProtocol[:idx] }
  return ""
  \<close>
\<close>

definition extractUsernameFromURL :: "string \<Rightarrow> string" where
  "extractUsernameFromURL dbURL =
     (if \<not> HasPrefix dbURL ''postgres://'' \<and> \<not> HasPrefix dbURL ''postgresql://'' then ''''
      else
        let urlWithoutProtocol = TrimPrefix (TrimPrefix dbURL ''postgres://'') ''postgresql://'';
            idx = Index urlWithoutProtocol '':''
        in if 0 < idx then take (nat idx) urlWithoutProtocol
           else
             let idx = Index urlWithoutProtocol ''@''
             in if 0 < idx then take (nat idx) urlWithoutProtocol else '''')"

section \<open>The resources: api/v1alpha1 and the core objects the controller touches\<close>

text \<open>
  Each Go struct is a record with the fields of the source. A pointer field that may be
  \<open>nil\<close> is an \<open>option\<close>. The maps of a ConfigMap (\<open>Labels\<close>, \<open>Annotations\<close>,
  \<open>Data\<close>) are \<open>nil\<close> when the stored object has none, and Go panics on an assignment
  into a \<open>nil\<close> map, so they are optional maps. Timestamps are natural numbers.
\<close>

record SecretReference =
  ref_Name :: string
  ref_Key :: string
  ref_Namespace :: string

record DatabaseSpec =
  spec_Name :: string
  spec_URL :: string
  spec_URLFromSecret :: "SecretReference option"
  spec_SuperuserURL :: string
  spec_SuperuserURLFromSecret :: "SecretReference option"
  spec_DatabaseType :: string
  spec_Enabled :: bool

datatype ConditionStatus = ConditionTrue | ConditionFalse | ConditionUnknown

record Condition =
  cond_Type :: string
  cond_Status :: ConditionStatus
  cond_Reason :: string
  cond_Message :: string
  cond_LastTransitionTime :: nat

record DatabaseStatus =
  Phase :: string
  Message :: string
  LastUpdated :: nat
  ConfigMapRef :: string
  ConnectionStatus :: string
  ExtensionsReady :: bool
  RequiredExtensions :: "string list"
  InstalledExtensions :: "string list"
  LastError :: string
  Conditions :: "Condition list"

record Database =
  Name :: string
  Namespace :: string
  DeletionTimestamp :: "nat option"
  Finalizers :: "string list"
  Spec :: DatabaseSpec
  Status :: DatabaseStatus

record ConfigMap =
  cm_Name :: string
  cm_Namespace :: string
  cm_Labels :: "(string \<rightharpoonup> string) option"
  cm_Annotations :: "(string \<rightharpoonup> string) option"
  cm_Data :: "(string \<rightharpoonup> string) option"

text \<open>\<open>ctrl.Result\<close>: the requeue delay in seconds, \<open>0\<close> for the empty result.\<close>

record Result =
  RequeueAfter :: nat

definition databaseFinalizer :: string where
  "databaseFinalizer = ''pghero.mithucste30.io/finalizer''"

definition configMapName :: string where
  "configMapName = ''pghero-databases''"

section \<open>Errors and panics\<close>

text \<open>
  A Go \<open>error\<close> is a value: the control plane's status errors by reason, any other failure
  by its text, and \<open>fmt.Errorf("...: %w", err)\<close> as a wrapper around its cause.
  \<open>Error\<close> is the text \<open>err.Error()\<close>, which is also what \<open>%v\<close> prints.
  A function that may panic returns an \<open>outcome\<close>.
\<close>

datatype error =
    NotFound string
  | AlreadyExists string
  | Conflict string
  | Failure string
  | Wrapped string error

fun Error :: "error \<Rightarrow> string" where
  "Error (NotFound m) = m"
| "Error (AlreadyExists m) = m"
| "Error (Conflict m) = m"
| "Error (Failure m) = m"
| "Error (Wrapped p e) = p @ Error e"

fun IsNotFound :: "error \<Rightarrow> bool" where
  "IsNotFound (NotFound m) = True"
| "IsNotFound (Wrapped p e) = IsNotFound e"
| "IsNotFound e = False"

datatype 'a outcome = Returns 'a | Panics string

section \<open>The environment: the control plane and the database driver\<close>

text \<open>
  The control plane is a store of Database resources (in list order, which is the order
  \<open>List\<close> returns them in), of secrets and of config maps, keyed by namespace and name.
  The store decides a request (an absent object is \<open>NotFound\<close>), unless the control plane
  refuses the request for a reason of its own: \<open>api_fault\<close> gives that reason, for
  instance \<open>Conflict\<close> for an update whose version token a concurrent writer has made
  stale. Every request is appended to \<open>api_calls\<close>.

  The database driver is known by its answers only. A database answers a statement
  depending on the statements sent to it before (\<open>sql_statements\<close>, every \<open>ExecContext\<close>
  with its connection URL): \<open>sql_exec\<close> is the error of a statement, \<open>sql_query\<close> the
  rows of a query, a row being \<open>None\<close> when \<open>rows.Scan\<close> fails on it.
\<close>

datatype api_call =
    GetDatabase string string
  | UpdateDatabase string string
  | UpdateDatabaseStatus string string
  | ListDatabases string
  | GetSecret string string
  | GetConfigMap string string
  | CreateConfigMap string string
  | UpdateConfigMap string string

record world =
  databases :: "Database list"
  secrets :: "string \<times> string \<rightharpoonup> (string \<rightharpoonup> string)"
  configmaps :: "string \<times> string \<rightharpoonup> ConfigMap"
  api_fault :: "api_call \<Rightarrow> error option"
  api_calls :: "api_call list"
  clock :: nat
  sql_open :: "string \<Rightarrow> error option"
  sql_ping :: "string \<Rightarrow> error option"
  sql_exec :: "(string \<times> string) list \<Rightarrow> string \<Rightarrow> string \<Rightarrow> error option"
  sql_query :: "(string \<times> string) list \<Rightarrow> string \<Rightarrow> string \<Rightarrow> error + string option list"
  sql_statements :: "(string \<times> string) list"

definition logged :: "api_call \<Rightarrow> world \<Rightarrow> world" where
  "logged c w = w\<lparr>api_calls := api_calls w @ [c]\<rparr>"

definition is_named :: "string \<Rightarrow> string \<Rightarrow> Database \<Rightarrow> bool" where
  "is_named ns n d = (Namespace d = ns \<and> Name d = n)"

subsection \<open>client.Client\<close>

definition Get_Database :: "world \<Rightarrow> string \<Rightarrow> string \<Rightarrow> (error + Database) \<times> world" where
  "Get_Database w ns n =
     (case api_fault w (GetDatabase ns n) of
        Some e \<Rightarrow> (Inl e, logged (GetDatabase ns n) w)
      | None \<Rightarrow>
          (case find (is_named ns n) (databases w) of
             None \<Rightarrow> (Inl (NotFound (''databases '' @ n @ '' not found'')), logged (GetDatabase ns n) w)
           | Some d \<Rightarrow> (Inr d, logged (GetDatabase ns n) w)))"

text \<open>
  The Database type has the status subresource: \<open>Update\<close> writes the object without its
  status, \<open>Status().Update\<close> writes the status alone.
\<close>

definition Update_Database :: "world \<Rightarrow> Database \<Rightarrow> error option \<times> world" where
  "Update_Database w obj =
     (let c = UpdateDatabase (Namespace obj) (Name obj) in
      case api_fault w c of
        Some e \<Rightarrow> (Some e, logged c w)
      | None \<Rightarrow>
          (case find (is_named (Namespace obj) (Name obj)) (databases w) of
             None \<Rightarrow> (Some (NotFound (''databases '' @ Name obj @ '' not found'')), logged c w)
           | Some d \<Rightarrow>
               (None, logged c (w\<lparr>databases :=
                  map (\<lambda>d. if is_named (Namespace obj) (Name obj) d then obj\<lparr>Status := Status d\<rparr> else d)
                    (databases w)\<rparr>))))"

definition Status_Update :: "world \<Rightarrow> Database \<Rightarrow> error option \<times> world" where
  "Status_Update w obj =
     (let c = UpdateDatabaseStatus (Namespace obj) (Name obj) in
      case api_fault w c of
        Some e \<Rightarrow> (Some e, logged c w)
      | None \<Rightarrow>
          (case find (is_named (Namespace obj) (Name obj)) (databases w) of
             None \<Rightarrow> (Some (NotFound (''databases '' @ Name obj @ '' not found'')), logged c w)
           | Some d \<Rightarrow>
               (None, logged c (w\<lparr>databases :=
                  map (\<lambda>d. if is_named (Namespace obj) (Name obj) d then d\<lparr>Status := Status obj\<rparr> else d)
                    (databases w)\<rparr>))))"

definition List_Databases :: "world \<Rightarrow> string \<Rightarrow> (error + Database list) \<times> world" where
  "List_Databases w ns =
     (case api_fault w (ListDatabases ns) of
        Some e \<Rightarrow> (Inl e, logged (ListDatabases ns) w)
      | None \<Rightarrow> (Inr (filter (\<lambda>d. Namespace d = ns) (databases w)), logged (ListDatabases ns) w))"

definition Get_Secret :: "world \<Rightarrow> string \<Rightarrow> string \<Rightarrow> (error + (string \<rightharpoonup> string)) \<times> world" where
  "Get_Secret w ns n =
     (case api_fault w (GetSecret ns n) of
        Some e \<Rightarrow> (Inl e, logged (GetSecret ns n) w)
      | None \<Rightarrow>
          (case secrets w (ns, n) of
             None \<Rightarrow> (Inl (NotFound (''secrets '' @ n @ '' not found'')), logged (GetSecret ns n) w)
           | Some d \<Rightarrow> (Inr d, logged (GetSecret ns n) w)))"

definition Get_ConfigMap :: "world \<Rightarrow> string \<Rightarrow> string \<Rightarrow> (error + ConfigMap) \<times> world" where
  "Get_ConfigMap w ns n =
     (case api_fault w (GetConfigMap ns n) of
        Some e \<Rightarrow> (Inl e, logged (GetConfigMap ns n) w)
      | None \<Rightarrow>
          (case configmaps w (ns, n) of
             None \<Rightarrow> (Inl (NotFound (''configmaps '' @ n @ '' not found'')), logged (GetConfigMap ns n) w)
           | Some cm \<Rightarrow> (Inr cm, logged (GetConfigMap ns n) w)))"

definition Create_ConfigMap :: "world \<Rightarrow> ConfigMap \<Rightarrow> error option \<times> world" where
  "Create_ConfigMap w cm =
     (let c = CreateConfigMap (cm_Namespace cm) (cm_Name cm) in
      case api_fault w c of
        Some e \<Rightarrow> (Some e, logged c w)
      | None \<Rightarrow>
          (case configmaps w (cm_Namespace cm, cm_Name cm) of
             Some old \<Rightarrow> (Some (AlreadyExists (''configmaps '' @ cm_Name cm @ '' already exists'')), logged c w)
           | None \<Rightarrow>
               (None, logged c (w\<lparr>configmaps := (configmaps w)((cm_Namespace cm, cm_Name cm) \<mapsto> cm)\<rparr>))))"

definition Update_ConfigMap :: "world \<Rightarrow> ConfigMap \<Rightarrow> error option \<times> world" where
  "Update_ConfigMap w cm =
     (let c = UpdateConfigMap (cm_Namespace cm) (cm_Name cm) in
      case api_fault w c of
        Some e \<Rightarrow> (Some e, logged c w)
      | None \<Rightarrow>
          (case configmaps w (cm_Namespace cm, cm_Name cm) of
             None \<Rightarrow> (Some (NotFound (''configmaps '' @ cm_Name cm @ '' not found'')), logged c w)
           | Some old \<Rightarrow>
               (None, logged c (w\<lparr>configmaps := (configmaps w)((cm_Namespace cm, cm_Name cm) \<mapsto> cm)\<rparr>))))"

subsection \<open>database/sql\<close>

definition ExecContext :: "world \<Rightarrow> string \<Rightarrow> string \<Rightarrow> error option \<times> world" where
  "ExecContext w url stmt =
     (sql_exec w (sql_statements w) url stmt,
      w\<lparr>sql_statements := sql_statements w @ [(url, stmt)]\<rparr>)"

definition QueryContext :: "world \<Rightarrow> string \<Rightarrow> string \<Rightarrow> error + string option list" where
  "QueryContext w url q = sql_query w (sql_statements w) url q"

text \<open>
  The loop over \<open>rows.Next()\<close>: a row whose \<open>Scan\<close> fails is skipped.
\<close>

fun scanRows :: "string option list \<Rightarrow> string list" where
  "scanRows [] = []"
| "scanRows (None # rows) = scanRows rows"
| "scanRows (Some extname # rows) = extname # scanRows rows"

section \<open>Resolver: getDatabaseURL and getSuperuserURL\<close>

definition getDatabaseURL :: "world \<Rightarrow> Database \<Rightarrow> (error + string) \<times> world" where
  "getDatabaseURL w database =
     (case spec_URLFromSecret (Spec database) of
        Some secretRef \<Rightarrow>
          (let namespace = (if ref_Namespace secretRef = '''' then Namespace database
                            else ref_Namespace secretRef) in
           case Get_Secret w namespace (ref_Name secretRef) of
             (Inl err, w') \<Rightarrow>
               (Inl (Wrapped (''failed to get secret '' @ namespace @ ''/'' @ ref_Name secretRef @ '': '') err), w')
           | (Inr secret, w') \<Rightarrow>
               (case secret (ref_Key secretRef) of
                  None \<Rightarrow>
                    (Inl (Failure (''key '' @ ref_Key secretRef @ '' not found in secret '' @ namespace
                                   @ ''/'' @ ref_Name secretRef)), w')
                | Some url \<Rightarrow> (Inr url, w')))
      | None \<Rightarrow> (Inr (spec_URL (Spec database)), w))"

definition getSuperuserURL :: "world \<Rightarrow> Database \<Rightarrow> string \<Rightarrow> (error + string) \<times> world" where
  "getSuperuserURL w database regularURL =
     (case spec_SuperuserURLFromSecret (Spec database) of
        Some secretRef \<Rightarrow>
          (let namespace = (if ref_Namespace secretRef = '''' then Namespace database
                            else ref_Namespace secretRef) in
           case Get_Secret w namespace (ref_Name secretRef) of
             (Inl err, w') \<Rightarrow>
               (Inl (Wrapped (''failed to get superuser secret '' @ namespace @ ''/'' @ ref_Name secretRef @ '': '') err), w')
           | (Inr secret, w') \<Rightarrow>
               (case secret (ref_Key secretRef) of
                  None \<Rightarrow>
                    (Inl (Failure (''key '' @ ref_Key secretRef @ '' not found in superuser secret '' @ namespace
                                   @ ''/'' @ ref_Name secretRef)), w')
                | Some url \<Rightarrow> (Inr url, w')))
      | None \<Rightarrow>
          (if spec_SuperuserURL (Spec database) \<noteq> '''' then (Inr (spec_SuperuserURL (Spec database)), w)
           else (Inr '''', w)))"

section \<open>ExtensionProvisioner: createExtensionAsSuperuser and setupDatabaseExtensions\<close>

text \<open>
  \<open>createExtensionAsSuperuser\<close> opens a connection with the superuser URL, creates the
  extension, and then grants the monitoring role and the execute privilege to the user it
  extracts from \<open>database.Spec.URL\<close>; the errors of the two grants are logged and dropped.
\<close>

definition createExtensionAsSuperuser ::
  "world \<Rightarrow> string \<Rightarrow> string \<Rightarrow> Database \<Rightarrow> bool \<times> world" where
  "createExtensionAsSuperuser w superuserURL extName database =
     (case sql_open w superuserURL of
        Some err \<Rightarrow> (False, w)
      | None \<Rightarrow>
          (case sql_ping w superuserURL of
             Some err \<Rightarrow> (False, w)
           | None \<Rightarrow>
               (case ExecContext w superuserURL (''CREATE EXTENSION IF NOT EXISTS '' @ extName) of
                  (Some err, w1) \<Rightarrow> (False, w1)
                | (None, w1) \<Rightarrow>
                    (let username = extractUsernameFromURL (spec_URL (Spec database)) in
                     if username \<noteq> '''' \<and> username \<noteq> ''postgres'' then
                       (let (err1, w2) = ExecContext w1 superuserURL (''GRANT pg_monitor TO '' @ username);
                            (err2, w3) = ExecContext w2 superuserURL
                               (''GRANT EXECUTE ON FUNCTION pg_stat_statements_reset TO '' @ username)
                        in (True, w3))
                     else (True, w1)))))"

definition requiredExtensions :: "string list" where
  "requiredExtensions = [''pg_stat_statements'']"

text \<open>The inner loop \<open>for _, installed := range installedExtensions\<close> with its \<open>break\<close>.\<close>

fun isInstalled :: "string list \<Rightarrow> string \<Rightarrow> bool" where
  "isInstalled [] required = False"
| "isInstalled (installed # rest) required =
     (if installed = required then True else isInstalled rest required)"

definition missingExtensions :: "string list \<Rightarrow> string list" where
  "missingExtensions installedExtensions =
     filter (\<lambda>required. \<not> isInstalled installedExtensions required) requiredExtensions"

text \<open>
  One turn of the loop \<open>for _, ext := range missingExtensions\<close>. The first component is
  \<open>Some r\<close> when the turn returns \<open>r\<close> from \<open>setupDatabaseExtensions\<close>, and \<open>None\<close> when the
  loop goes on to the next extension.
\<close>

definition installExtension ::
  "world \<Rightarrow> Database \<Rightarrow> string \<Rightarrow> string \<Rightarrow> (bool \<times> error option) option \<times> Database \<times> world" where
  "installExtension w database dbURL ext =
     (case ExecContext w dbURL (''CREATE EXTENSION IF NOT EXISTS '' @ ext) of
        (None, w1) \<Rightarrow> (None, database, w1)
      | (Some err, w1) \<Rightarrow>
          (let errMsg = Error err in
           if Contains errMsg ''permission denied'' \<or> Contains errMsg ''must be superuser'' then
             (case getSuperuserURL w1 database dbURL of
                (Inl err', w2) \<Rightarrow>
                  (Some (False, None),
                   database\<lparr>Status := (Status database)\<lparr>
                     LastError := ''Permission denied to create extension '' @ ext @
                       ''. Database user needs superuser privileges or provide superuser credentials via superuserUrl or superuserUrlFromSecret.'',
                     ExtensionsReady := False\<rparr>\<rparr>,
                   w2)
              | (Inr superuserURL, w2) \<Rightarrow>
                  if superuserURL = '''' then
                    (Some (False, None),
                     database\<lparr>Status := (Status database)\<lparr>
                       LastError := ''Permission denied to create extension '' @ ext @
                         ''. Database user needs superuser privileges or provide superuser credentials via superuserUrl or superuserUrlFromSecret.'',
                       ExtensionsReady := False\<rparr>\<rparr>,
                     w2)
                  else
                    (case createExtensionAsSuperuser w2 superuserURL ext database of
                       (False, w3) \<Rightarrow>
                         (Some (False, None),
                          database\<lparr>Status := (Status database)\<lparr>
                            LastError := ''Failed to create extension '' @ ext @ '' even with superuser credentials'',
                            ExtensionsReady := False\<rparr>\<rparr>,
                          w3)
                     | (True, w3) \<Rightarrow> (None, database, w3)))
           else
             (Some (False, Some (Wrapped (''failed to create extension '' @ ext @ '': '') err)),
              database\<lparr>Status := (Status database)\<lparr>
                LastError := ''Failed to create extension '' @ ext @ '': '' @ Error err\<rparr>\<rparr>,
              w1)))"

fun installMissing ::
  "world \<Rightarrow> Database \<Rightarrow> string \<Rightarrow> string list \<Rightarrow> (bool \<times> error option) option \<times> Database \<times> world" where
  "installMissing w database dbURL [] = (None, database, w)"
| "installMissing w database dbURL (ext # exts) =
     (case installExtension w database dbURL ext of
        (Some r, database', w') \<Rightarrow> (Some r, database', w')
      | (None, database', w') \<Rightarrow> installMissing w' database' dbURL exts)"

definition allInstalled :: "string list \<Rightarrow> bool" where
  "allInstalled installedExtensions = list_all (isInstalled installedExtensions) requiredExtensions"

definition setupDatabaseExtensions ::
  "world \<Rightarrow> Database \<Rightarrow> string \<Rightarrow> (bool \<times> error option) \<times> Database \<times> world" where
  "setupDatabaseExtensions w database dbURL =
     (case sql_open w dbURL of
        Some err \<Rightarrow>
          ((False, Some (Wrapped ''failed to open database connection: '' err)),
           database\<lparr>Status := (Status database)\<lparr>
             ConnectionStatus := ''Failed'',
             LastError := ''Failed to connect: '' @ Error err\<rparr>\<rparr>,
           w)
      | None \<Rightarrow>
          (case sql_ping w dbURL of
             Some err \<Rightarrow>
               ((False, Some (Wrapped ''database unreachable: '' err)),
                database\<lparr>Status := (Status database)\<lparr>
                  ConnectionStatus := ''Unreachable'',
                  LastError := ''Database unreachable: '' @ Error err\<rparr>\<rparr>,
                w)
           | None \<Rightarrow>
               (let database1 = database\<lparr>Status := (Status database)\<lparr>
                      ConnectionStatus := ''Connected'',
                      RequiredExtensions := requiredExtensions\<rparr>\<rparr>
                in
                case QueryContext w dbURL ''SELECT extname FROM pg_extension'' of
                  Inl err \<Rightarrow>
                    ((False, Some (Wrapped ''failed to query extensions: '' err)),
                     database1\<lparr>Status := (Status database1)\<lparr>
                       LastError := ''Failed to query extensions: '' @ Error err\<rparr>\<rparr>,
                     w)
                | Inr rows \<Rightarrow>
                    (let installedExtensions = scanRows rows;
                         database2 = database1\<lparr>Status := (Status database1)\<lparr>
                           InstalledExtensions := installedExtensions\<rparr>\<rparr>
                     in
                     if length (missingExtensions installedExtensions) = 0 then
                       ((True, None),
                        database2\<lparr>Status := (Status database2)\<lparr>
                          ExtensionsReady := True, LastError := ''''\<rparr>\<rparr>,
                        w)
                     else
                       (case installMissing w database2 dbURL (missingExtensions installedExtensions) of
                          (Some r, database3, w3) \<Rightarrow> (r, database3, w3)
                        | (None, database3, w3) \<Rightarrow>
                            (case QueryContext w3 dbURL ''SELECT extname FROM pg_extension'' of
                               Inl err \<Rightarrow>
                                 ((False, Some (Wrapped ''failed to verify extensions: '' err)), database3, w3)
                             | Inr rows' \<Rightarrow>
                                 (let installedExtensions' = scanRows rows';
                                      database4 = database3\<lparr>Status := (Status database3)\<lparr>
                                        InstalledExtensions := installedExtensions',
                                        ExtensionsReady := allInstalled installedExtensions'\<rparr>\<rparr>
                                  in
                                  if allInstalled installedExtensions' then
                                    ((True, None),
                                     database4\<lparr>Status := (Status database4)\<lparr>LastError := ''''\<rparr>\<rparr>,
                                     w3)
                                  else ((False, None), database4, w3))))))))"

section \<open>ConfigAggregator: reconcileConfigMap and rebuildAggregatedConfigMap\<close>

definition databaseEntry :: "Database \<Rightarrow> string \<Rightarrow> string" where
  "databaseEntry db url = ''  '' @ spec_Name (Spec db) @ '':'' @ nl @ ''    url: '' @ url @ nl"

text \<open>
  The loop of \<open>reconcileConfigMap\<close> over \<open>databaseList.Items\<close>: the current database
  (the item of the same name) takes the URL the caller has resolved, any other item is
  resolved here and skipped (\<open>continue\<close>) when that fails; an enabled item adds its entry.
\<close>

fun aggregateConfig :: "world \<Rightarrow> Database \<Rightarrow> string \<Rightarrow> Database list \<Rightarrow> string \<Rightarrow> string \<times> world" where
  "aggregateConfig w database dbURL [] aggregatedConfig = (aggregatedConfig, w)"
| "aggregateConfig w database dbURL (db # items) aggregatedConfig =
     (if Name db = Name database then
        aggregateConfig w database dbURL items
          (if spec_Enabled (Spec db) then aggregatedConfig @ databaseEntry db dbURL else aggregatedConfig)
      else
        (case getDatabaseURL w db of
           (Inl err, w') \<Rightarrow> aggregateConfig w' database dbURL items aggregatedConfig
         | (Inr url, w') \<Rightarrow>
             aggregateConfig w' database dbURL items
               (if spec_Enabled (Spec db) then aggregatedConfig @ databaseEntry db url else aggregatedConfig)))"

definition managedLabels :: "string \<rightharpoonup> string" where
  "managedLabels =
     [''app.kubernetes.io/name'' \<mapsto> ''pghero'',
      ''app.kubernetes.io/component'' \<mapsto> ''database-config'',
      ''app.kubernetes.io/managed-by'' \<mapsto> ''pghero-controller'']"

definition countAnnotation :: string where
  "countAnnotation = ''pghero.mithucste30.io/database-count''"

definition reconcileConfigMap :: "world \<Rightarrow> Database \<Rightarrow> string \<Rightarrow> (error + string) \<times> world" where
  "reconcileConfigMap w database dbURL =
     (case List_Databases w (Namespace database) of
        (Inl err, w1) \<Rightarrow> (Inl (Wrapped ''failed to list databases: '' err), w1)
      | (Inr items, w1) \<Rightarrow>
          (case aggregateConfig w1 database dbURL items (''databases:'' @ nl) of
             (aggregatedConfig, w2) \<Rightarrow>
               (let configMap = \<lparr>cm_Name = ''pghero-databases'',
                                 cm_Namespace = Namespace database,
                                 cm_Labels = Some managedLabels,
                                 cm_Annotations = Some [countAnnotation \<mapsto> Itoa (length items)],
                                 cm_Data = Some [''database.yml'' \<mapsto> aggregatedConfig]\<rparr>
                in
                case Get_ConfigMap w2 (Namespace database) ''pghero-databases'' of
                  (Inl err, w3) \<Rightarrow>
                    if IsNotFound err then
                      (case Create_ConfigMap w3 configMap of
                         (Some err', w4) \<Rightarrow> (Inl err', w4)
                       | (None, w4) \<Rightarrow> (Inr ''pghero-databases'', w4))
                    else (Inl err, w3)
                | (Inr found, w3) \<Rightarrow>
                    (case Update_ConfigMap w3
                            (found\<lparr>cm_Data := cm_Data configMap,
                                   cm_Labels := cm_Labels configMap,
                                   cm_Annotations := cm_Annotations configMap\<rparr>) of
                       (Some err', w4) \<Rightarrow> (Inl err', w4)
                     | (None, w4) \<Rightarrow> (Inr ''pghero-databases'', w4)))))"

text \<open>
  The loop of \<open>rebuildAggregatedConfigMap\<close>: the excluded database is skipped, every
  other item is resolved, and \<open>count\<close> goes up with every entry added.
\<close>

fun rebuildConfig :: "world \<Rightarrow> string \<Rightarrow> Database list \<Rightarrow> string \<Rightarrow> nat \<Rightarrow> (string \<times> nat) \<times> world" where
  "rebuildConfig w excludeDB [] aggregatedConfig count = ((aggregatedConfig, count), w)"
| "rebuildConfig w excludeDB (db # items) aggregatedConfig count =
     (if Name db = excludeDB then rebuildConfig w excludeDB items aggregatedConfig count
      else
        (case getDatabaseURL w db of
           (Inl err, w') \<Rightarrow> rebuildConfig w' excludeDB items aggregatedConfig count
         | (Inr url, w') \<Rightarrow>
             if spec_Enabled (Spec db) then
               rebuildConfig w' excludeDB items (aggregatedConfig @ databaseEntry db url) (count + 1)
             else rebuildConfig w' excludeDB items aggregatedConfig count))"

text \<open>
  After the lookup, \<open>configMap.Data["database.yml"] = ...\<close> and
  \<open>configMap.Annotations[...] = ...\<close> assign into the maps of the object read; a map
  that is \<open>nil\<close> makes the assignment panic.
\<close>

definition rebuildAggregatedConfigMap :: "world \<Rightarrow> string \<Rightarrow> string \<Rightarrow> error option outcome \<times> world" where
  "rebuildAggregatedConfigMap w namespace excludeDB =
     (case List_Databases w namespace of
        (Inl err, w1) \<Rightarrow> (Returns (Some (Wrapped ''failed to list databases: '' err)), w1)
      | (Inr items, w1) \<Rightarrow>
          (case rebuildConfig w1 excludeDB items (''databases:'' @ nl) 0 of
             ((aggregatedConfig, count), w2) \<Rightarrow>
               (case Get_ConfigMap w2 namespace ''pghero-databases'' of
                  (Inl err, w3) \<Rightarrow>
                    if IsNotFound err then (Returns None, w3) else (Returns (Some err), w3)
                | (Inr configMap, w3) \<Rightarrow>
                    (case cm_Data configMap of
                       None \<Rightarrow> (Panics ''assignment to entry in nil map'', w3)
                     | Some data \<Rightarrow>
                         (case cm_Annotations configMap of
                            None \<Rightarrow> (Panics ''assignment to entry in nil map'', w3)
                          | Some annotations \<Rightarrow>
                              (case Update_ConfigMap w3
                                      (configMap\<lparr>cm_Data := Some (data(''database.yml'' \<mapsto> aggregatedConfig)),
                                                 cm_Annotations := Some (annotations(countAnnotation \<mapsto> Itoa count))\<rparr>) of
                                 (r, w4) \<Rightarrow> (Returns r, w4)))))))"

section \<open>Reconciler: updateStatus, handleDeletion and Reconcile\<close>

text \<open>
  The loop of \<open>updateStatus\<close> over the conditions: the first condition of type
  \<open>Ready\<close> is overwritten where it stands and the loop breaks; the flag says whether
  one was found.
\<close>

fun replaceReady :: "Condition \<Rightarrow> Condition list \<Rightarrow> bool \<times> Condition list" where
  "replaceReady condition [] = (False, [])"
| "replaceReady condition (c # cs) =
     (if cond_Type c = ''Ready'' then (True, condition # cs)
      else (case replaceReady condition cs of (found, cs') \<Rightarrow> (found, c # cs')))"

definition updateStatus ::
  "world \<Rightarrow> Database \<Rightarrow> string \<Rightarrow> string \<Rightarrow> string \<Rightarrow> bool \<Rightarrow> (error + Result) \<times> Database \<times> world" where
  "updateStatus w database phase message configMapRef extensionsReady =
     (let condition = \<lparr>cond_Type = ''Ready'',
                        cond_Status = (if phase = ''Error'' \<or> phase = ''Configuring'' then ConditionFalse
                                       else ConditionTrue),
                        cond_Reason = phase,
                        cond_Message = message,
                        cond_LastTransitionTime = clock w\<rparr>;
          (found, replaced) = replaceReady condition (Conditions (Status database));
          database' = database\<lparr>Status := (Status database)\<lparr>
            Phase := phase,
            Message := message,
            LastUpdated := clock w,
            ConfigMapRef := configMapRef,
            ExtensionsReady := extensionsReady,
            Conditions := (if found then replaced else Conditions (Status database) @ [condition])\<rparr>\<rparr>
      in
      case Status_Update w database' of
        (Some err, w') \<Rightarrow> (Inl err, database', w')
      | (None, w') \<Rightarrow>
          (if phase = ''Ready'' then (Inr \<lparr>RequeueAfter = 300\<rparr>, database', w')
           else if phase = ''Configuring'' then (Inr \<lparr>RequeueAfter = 30\<rparr>, database', w')
           else if phase = ''Error'' then (Inr \<lparr>RequeueAfter = 60\<rparr>, database', w')
           else (Inr \<lparr>RequeueAfter = 0\<rparr>, database', w')))"

text \<open>The controllerutil helpers for finalizers.\<close>

definition ContainsFinalizer :: "Database \<Rightarrow> string \<Rightarrow> bool" where
  "ContainsFinalizer obj f = (f \<in> set (Finalizers obj))"

definition AddFinalizer :: "Database \<Rightarrow> string \<Rightarrow> Database" where
  "AddFinalizer obj f =
     (if f \<in> set (Finalizers obj) then obj else obj\<lparr>Finalizers := Finalizers obj @ [f]\<rparr>)"

definition RemoveFinalizer :: "Database \<Rightarrow> string \<Rightarrow> Database" where
  "RemoveFinalizer obj f = obj\<lparr>Finalizers := filter (\<lambda>x. x \<noteq> f) (Finalizers obj)\<rparr>"

definition handleDeletion :: "world \<Rightarrow> Database \<Rightarrow> (error + Result) outcome \<times> world" where
  "handleDeletion w database =
     (if ContainsFinalizer database databaseFinalizer then
        (case rebuildAggregatedConfigMap w (Namespace database) (Name database) of
           (Panics p, w1) \<Rightarrow> (Panics p, w1)
         | (Returns err, w1) \<Rightarrow>
             (case Update_Database w1 (RemoveFinalizer database databaseFinalizer) of
                (Some err', w2) \<Rightarrow> (Returns (Inl err'), w2)
              | (None, w2) \<Rightarrow> (Returns (Inr \<lparr>RequeueAfter = 0\<rparr>), w2)))
      else (Returns (Inr \<lparr>RequeueAfter = 0\<rparr>), w))"

definition IsZero :: "nat option \<Rightarrow> bool" where
  "IsZero t = (case t of None \<Rightarrow> True | Some time \<Rightarrow> time = 0)"

text \<open>
  The part of \<open>Reconcile\<close> after the finalizer is in place: resolve the URL, set up the
  extensions of a PostgreSQL database, write the aggregate, and record the phase.
\<close>

definition reconcileResource :: "world \<Rightarrow> Database \<Rightarrow> (error + Result) \<times> Database \<times> world" where
  "reconcileResource w database =
     (case getDatabaseURL w database of
        (Inl err, w1) \<Rightarrow>
          updateStatus w1 database ''Error'' (''Failed to get database URL: '' @ Error err) '''' False
      | (Inr dbURL, w1) \<Rightarrow>
          (case (if spec_DatabaseType (Spec database) = ''postgresql'' \<or> spec_DatabaseType (Spec database) = ''''
                 then setupDatabaseExtensions w1 database dbURL
                 else ((True, None), database, w1)) of
             ((setupComplete, Some err), database2, w2) \<Rightarrow>
               updateStatus w2 database2 ''Configuring''
                 (''Setting up database extensions: '' @ Error err) '''' False
           | ((False, None), database2, w2) \<Rightarrow>
               updateStatus w2 database2 ''Configuring'' ''Setting up required database extensions'' '''' False
           | ((True, None), database2, w2) \<Rightarrow>
               (case reconcileConfigMap w2 database2 dbURL of
                  (Inl err, w3) \<Rightarrow>
                    updateStatus w3 database2 ''Error'' (''Failed to reconcile ConfigMap: '' @ Error err) ''''
                      (ExtensionsReady (Status database2))
                | (Inr configMapRef, w3) \<Rightarrow>
                    updateStatus w3 database2 ''Ready'' ''Database configuration synchronized'' configMapRef True)))"

definition Reconcile :: "world \<Rightarrow> string \<times> string \<Rightarrow> (error + Result) outcome \<times> world" where
  "Reconcile w req =
     (case Get_Database w (fst req) (snd req) of
        (Inl err, w1) \<Rightarrow>
          if IsNotFound err then (Returns (Inr \<lparr>RequeueAfter = 0\<rparr>), w1) else (Returns (Inl err), w1)
      | (Inr database, w1) \<Rightarrow>
          if \<not> IsZero (DeletionTimestamp database) then handleDeletion w1 database
          else
            (case (if \<not> ContainsFinalizer database databaseFinalizer then
                     (case Update_Database w1 (AddFinalizer database databaseFinalizer) of
                        (err, w2) \<Rightarrow> (err, AddFinalizer database databaseFinalizer, w2))
                   else (None, database, w1)) of
               (Some err, database1, w2) \<Rightarrow> (Returns (Inl err), w2)
             | (None, database1, w2) \<Rightarrow>
                 (case reconcileResource w2 database1 of
                    (r, database2, w3) \<Rightarrow> (Returns r, w3))))"

section \<open>Auxiliary definitions for the statements\<close>

text \<open>The condition that \<open>updateStatus\<close> builds before it looks through the list.\<close>

definition readyCondition :: "world \<Rightarrow> string \<Rightarrow> string \<Rightarrow> Condition" where
  "readyCondition w phase message =
     \<lparr>cond_Type = ''Ready'',
      cond_Status = (if phase = ''Error'' \<or> phase = ''Configuring'' then ConditionFalse else ConditionTrue),
      cond_Reason = phase, cond_Message = message, cond_LastTransitionTime = clock w\<rparr>"

text \<open>
  The object after \<open>updateStatus\<close> has set the status fields and the condition, which is
  also what \<open>Status().Update\<close> is given; and the requeue delay it returns for a phase.
\<close>

definition withStatus :: "world \<Rightarrow> Database \<Rightarrow> string \<Rightarrow> string \<Rightarrow> string \<Rightarrow> bool \<Rightarrow> Database" where
  "withStatus w database phase message configMapRef extensionsReady =
     database\<lparr>Status := (Status database)\<lparr>
       Phase := phase,
       Message := message,
       LastUpdated := clock w,
       ConfigMapRef := configMapRef,
       ExtensionsReady := extensionsReady,
       Conditions :=
         (if fst (replaceReady (readyCondition w phase message) (Conditions (Status database)))
          then snd (replaceReady (readyCondition w phase message) (Conditions (Status database)))
          else Conditions (Status database) @ [readyCondition w phase message])\<rparr>\<rparr>"

definition requeueFor :: "string \<Rightarrow> Result" where
  "requeueFor phase =
     (if phase = ''Ready'' then \<lparr>RequeueAfter = 300\<rparr>
      else if phase = ''Configuring'' then \<lparr>RequeueAfter = 30\<rparr>
      else if phase = ''Error'' then \<lparr>RequeueAfter = 60\<rparr>
      else \<lparr>RequeueAfter = 0\<rparr>)"

text \<open>
  The user name as the specification words the extraction: the scheme prefix is
  stripped, and the result is the text before the first colon, or, without a colon, the
  text before the first at-sign, or nothing.
\<close>

definition usernameAsSpecified :: "string \<Rightarrow> string" where
  "usernameAsSpecified dbURL =
     (if prefix ''postgres://'' dbURL \<or> prefix ''postgresql://'' dbURL then
        (let rest = (if prefix ''postgres://'' dbURL then drop (length ''postgres://'') dbURL
                     else drop (length ''postgresql://'') dbURL)
         in if CHR '':'' \<in> set rest then takeWhile (\<lambda>c. c \<noteq> CHR '':'') rest
            else if CHR ''@'' \<in> set rest then takeWhile (\<lambda>c. c \<noteq> CHR ''@'') rest
            else '''')
      else '''')"

text \<open>The two statements of the grant step, and the test for a grant among the statements sent.\<close>

definition grantStatements :: "string \<Rightarrow> string \<Rightarrow> (string \<times> string) list" where
  "grantStatements superuserURL username =
     [(superuserURL, ''GRANT pg_monitor TO '' @ username),
      (superuserURL, ''GRANT EXECUTE ON FUNCTION pg_stat_statements_reset TO '' @ username)]"

definition isGrant :: "string \<times> string \<Rightarrow> bool" where
  "isGrant sent = HasPrefix (snd sent) ''GRANT ''"

section \<open>An example cluster\<close>

text \<open>
  A control plane and a database server that refuse nothing, with an empty store and an
  empty extension catalog; and three resources of the namespace \<open>monitoring\<close>:
  \<open>production\<close> with a literal URL, \<open>staging\<close> whose URL is in a secret, and \<open>legacy\<close>,
  which is disabled.
\<close>

definition quietWorld :: world where
  "quietWorld =
     \<lparr>databases = [], secrets = Map.empty, configmaps = Map.empty,
      api_fault = (\<lambda>c. None), api_calls = [], clock = 1000,
      sql_open = (\<lambda>url. None), sql_ping = (\<lambda>url. None),
      sql_exec = (\<lambda>sent url stmt. None), sql_query = (\<lambda>sent url q. Inr []),
      sql_statements = []\<rparr>"

definition production :: Database where
  "production =
     \<lparr>Name = ''production'', Namespace = ''monitoring'', DeletionTimestamp = None,
      Finalizers = [''pghero.mithucste30.io/finalizer''],
      Spec = \<lparr>spec_Name = ''prod'', spec_URL = ''postgres://app:pw@db.internal:5432/shop'',
               spec_URLFromSecret = None, spec_SuperuserURL = '''', spec_SuperuserURLFromSecret = None,
               spec_DatabaseType = ''postgresql'', spec_Enabled = True\<rparr>,
      Status = \<lparr>Phase = ''Ready'', Message = ''Database configuration synchronized'', LastUpdated = 900,
                 ConfigMapRef = ''pghero-databases'', ConnectionStatus = ''Connected'',
                 ExtensionsReady = True, RequiredExtensions = [''pg_stat_statements''],
                 InstalledExtensions = [''plpgsql'', ''pg_stat_statements''], LastError = '''',
                 Conditions = [\<lparr>cond_Type = ''Ready'', cond_Status = ConditionTrue, cond_Reason = ''Ready'',
                                cond_Message = ''Database configuration synchronized'',
                                cond_LastTransitionTime = 900\<rparr>]\<rparr>\<rparr>"

definition staging :: Database where
  "staging =
     \<lparr>Name = ''staging'', Namespace = ''monitoring'', DeletionTimestamp = None,
      Finalizers = [''pghero.mithucste30.io/finalizer''],
      Spec = \<lparr>spec_Name = ''stage'', spec_URL = '''',
               spec_URLFromSecret = Some \<lparr>ref_Name = ''staging-db'', ref_Key = ''url'', ref_Namespace = ''''\<rparr>,
               spec_SuperuserURL = '''', spec_SuperuserURLFromSecret = None,
               spec_DatabaseType = '''', spec_Enabled = True\<rparr>,
      Status = \<lparr>Phase = '''', Message = '''', LastUpdated = 0, ConfigMapRef = '''', ConnectionStatus = '''',
                 ExtensionsReady = False, RequiredExtensions = [], InstalledExtensions = [], LastError = '''',
                 Conditions = []\<rparr>\<rparr>"

definition legacy :: Database where
  "legacy =
     \<lparr>Name = ''legacy'', Namespace = ''monitoring'', DeletionTimestamp = None,
      Finalizers = [''pghero.mithucste30.io/finalizer''],
      Spec = \<lparr>spec_Name = ''old'', spec_URL = ''postgres://old:pw@db.internal:5432/old'',
               spec_URLFromSecret = None, spec_SuperuserURL = '''', spec_SuperuserURLFromSecret = None,
               spec_DatabaseType = ''postgresql'', spec_Enabled = False\<rparr>,
      Status = \<lparr>Phase = '''', Message = '''', LastUpdated = 0, ConfigMapRef = '''', ConnectionStatus = '''',
                 ExtensionsReady = False, RequiredExtensions = [], InstalledExtensions = [], LastError = '''',
                 Conditions = []\<rparr>\<rparr>"

definition cluster :: world where
  "cluster = quietWorld\<lparr>databases := [production, staging, legacy]\<rparr>"

section \<open>Facts about the string functions\<close>

lemma HasPrefix_prefix: "HasPrefix s p = prefix p s"
  by (induction s p rule: HasPrefix.induct) auto

lemma TrimPrefix_append: "TrimPrefix (p @ s) p = s"
  by (simp add: TrimPrefix_def HasPrefix_prefix)

lemma TrimPrefix_other: "\<not> prefix p s \<Longrightarrow> TrimPrefix s p = s"
  by (simp add: TrimPrefix_def HasPrefix_prefix)

lemma Index_char:
  "Index s [c] = (if c \<in> set s then int (length (takeWhile (\<lambda>x. x \<noteq> c) s)) else - 1)"
  by (induction s) (auto simp: Let_def)

lemma take_takeWhile: "take (length (takeWhile P s)) s = takeWhile P s"
  by (induction s) auto

lemma extractUsernameFromURL_eq:
  "extractUsernameFromURL dbURL =
     (if \<not> prefix ''postgres://'' dbURL \<and> \<not> prefix ''postgresql://'' dbURL then ''''
      else
        let rest = TrimPrefix (TrimPrefix dbURL ''postgres://'') ''postgresql://'';
            beforeColon = takeWhile (\<lambda>c. c \<noteq> CHR '':'') rest;
            beforeAt = takeWhile (\<lambda>c. c \<noteq> CHR ''@'') rest
        in if CHR '':'' \<in> set rest \<and> beforeColon \<noteq> '''' then beforeColon
           else if CHR ''@'' \<in> set rest \<and> beforeAt \<noteq> '''' then beforeAt
           else '''')"
  unfolding extractUsernameFromURL_def Let_def HasPrefix_prefix
  by (simp add: Index_char take_takeWhile)

section \<open>Facts about the example cluster\<close>

lemma cluster_fields:
  "databases cluster = [production, staging, legacy]"
  "api_fault cluster = (\<lambda>c. None)"
  "api_calls cluster = []"
  "clock cluster = 1000"
  "secrets cluster = Map.empty"
  "configmaps cluster = Map.empty"
  by (simp_all add: cluster_def quietWorld_def)

lemma example_names:
  "Name production = ''production''" "Namespace production = ''monitoring''"
  "Name staging = ''staging''" "Namespace staging = ''monitoring''"
  "Name legacy = ''legacy''" "Namespace legacy = ''monitoring''"
  by (simp_all add: production_def staging_def legacy_def)

section \<open>The Ready condition written by updateStatus\<close>

lemma replaceReady_found:
  "fst (replaceReady condition cs) = (\<exists>c \<in> set cs. cond_Type c = ''Ready'')"
  by (induction cs) (auto split: prod.splits)

lemma replaceReady_length: "length (snd (replaceReady condition cs)) = length cs"
  by (induction cs) (auto split: prod.splits)

lemma replaceReady_others:
  "cond_Type condition = ''Ready'' \<Longrightarrow>
   filter (\<lambda>c. cond_Type c \<noteq> ''Ready'') (snd (replaceReady condition cs)) =
   filter (\<lambda>c. cond_Type c \<noteq> ''Ready'') cs"
  by (induction cs) (auto split: prod.splits)

lemma replaceReady_ready:
  "cond_Type condition = ''Ready'' \<Longrightarrow> fst (replaceReady condition cs) \<Longrightarrow>
   filter (\<lambda>c. cond_Type c = ''Ready'') (snd (replaceReady condition cs)) =
   condition # tl (filter (\<lambda>c. cond_Type c = ''Ready'') cs)"
  by (induction cs) (auto split: prod.splits)

lemma replaceReady_absent:
  "\<not> fst (replaceReady condition cs) \<Longrightarrow> filter (\<lambda>c. cond_Type c = ''Ready'') cs = []"
  by (induction cs) (auto split: prod.splits if_splits)

lemma updateStatus_unfold:
  "updateStatus w database phase message configMapRef extensionsReady =
     (case Status_Update w (withStatus w database phase message configMapRef extensionsReady) of
        (Some err, w') \<Rightarrow> (Inl err, withStatus w database phase message configMapRef extensionsReady, w')
      | (None, w') \<Rightarrow>
          (Inr (requeueFor phase), withStatus w database phase message configMapRef extensionsReady, w'))"
proof -
  obtain found replaced where rr:
    "replaceReady (readyCondition w phase message) (Conditions (Status database)) = (found, replaced)"
    by (cases "replaceReady (readyCondition w phase message) (Conditions (Status database))") auto
  have obj: "withStatus w database phase message configMapRef extensionsReady =
     database\<lparr>Status := (Status database)\<lparr>
       Phase := phase, Message := message, LastUpdated := clock w, ConfigMapRef := configMapRef,
       ExtensionsReady := extensionsReady,
       Conditions := (if found then replaced else Conditions (Status database) @ [readyCondition w phase message])\<rparr>\<rparr>"
    by (simp add: withStatus_def rr)
  obtain e w' where su:
    "Status_Update w (withStatus w database phase message configMapRef extensionsReady) = (e, w')"
    by (cases "Status_Update w (withStatus w database phase message configMapRef extensionsReady)") auto
  show ?thesis
    unfolding updateStatus_def readyCondition_def [symmetric] Let_def rr prod.case obj [symmetric] su
    by (cases e) (simp_all add: requeueFor_def)
qed

lemma Status_Update_cases:
  "Status_Update w obj =
     (case api_fault w (UpdateDatabaseStatus (Namespace obj) (Name obj)) of
        Some e \<Rightarrow> (Some e, logged (UpdateDatabaseStatus (Namespace obj) (Name obj)) w)
      | None \<Rightarrow>
          (if \<exists>d \<in> set (databases w). is_named (Namespace obj) (Name obj) d then
             (None, logged (UpdateDatabaseStatus (Namespace obj) (Name obj))
                (w\<lparr>databases :=
                  map (\<lambda>d. if is_named (Namespace obj) (Name obj) d then d\<lparr>Status := Status obj\<rparr> else d)
                    (databases w)\<rparr>))
           else (Some (NotFound (''databases '' @ Name obj @ '' not found'')),
                 logged (UpdateDatabaseStatus (Namespace obj) (Name obj)) w)))"
proof (cases "find (is_named (Namespace obj) (Name obj)) (databases w)")
  case None
  then have "\<not> (\<exists>d \<in> set (databases w). is_named (Namespace obj) (Name obj) d)"
    by (simp add: find_None_iff)
  with None show ?thesis
    by (simp add: Status_Update_def Let_def split: option.split)
next
  case (Some d)
  then have "\<exists>d \<in> set (databases w). is_named (Namespace obj) (Name obj) d"
    by (auto simp: find_Some_iff)
  with Some show ?thesis
    by (simp add: Status_Update_def Let_def split: option.split)
qed


lemma withStatus_ready_conditions:
  assumes "length (filter (\<lambda>c. cond_Type c = ''Ready'') (Conditions (Status database))) \<le> 1"
  shows "filter (\<lambda>c. cond_Type c = ''Ready'')
           (Conditions (Status (withStatus w database phase message configMapRef extensionsReady)))
         = [readyCondition w phase message]"
proof (cases "fst (replaceReady (readyCondition w phase message) (Conditions (Status database)))")
  case True
  have "tl (filter (\<lambda>c. cond_Type c = ''Ready'') (Conditions (Status database))) = []"
    using assms by (cases "filter (\<lambda>c. cond_Type c = ''Ready'') (Conditions (Status database))") auto
  with True show ?thesis
    by (simp add: withStatus_def replaceReady_ready readyCondition_def)
next
  case False
  then show ?thesis
    by (simp add: withStatus_def replaceReady_absent readyCondition_def)
qed

lemma updateStatus_object:
  "fst (snd (updateStatus w database phase message configMapRef extensionsReady)) =
   withStatus w database phase message configMapRef extensionsReady"
  by (simp add: updateStatus_unfold split: prod.split option.split)

lemma find_map_status:
  "find (is_named ns n) (map (\<lambda>d. if is_named ns n d then d\<lparr>Status := s\<rparr> else d) ds) =
   map_option (\<lambda>d. d\<lparr>Status := s\<rparr>) (find (is_named ns n) ds)"
  by (induction ds) (auto simp: is_named_def)

lemma Status_Update_stored:
  assumes "Status_Update w obj = (None, w')"
  shows "\<exists>d. find (is_named (Namespace obj) (Name obj)) (databases w') = Some d \<and> Status d = Status obj"
proof -
  from assms have ex: "\<exists>d \<in> set (databases w). is_named (Namespace obj) (Name obj) d"
    and w': "w' = logged (UpdateDatabaseStatus (Namespace obj) (Name obj))
                (w\<lparr>databases :=
                  map (\<lambda>d. if is_named (Namespace obj) (Name obj) d then d\<lparr>Status := Status obj\<rparr> else d)
                    (databases w)\<rparr>)"
    by (auto simp: Status_Update_cases split: option.splits if_splits)
  from ex obtain d where "find (is_named (Namespace obj) (Name obj)) (databases w) = Some d"
    by (cases "find (is_named (Namespace obj) (Name obj)) (databases w)") (auto simp: find_None_iff)
  then show ?thesis
    unfolding w' by (simp add: logged_def find_map_status)
qed

lemma updateStatus_persisted:
  assumes "updateStatus w database phase message configMapRef extensionsReady = (Inr res, database', w')"
  shows "\<exists>d. find (is_named (Namespace database) (Name database)) (databases w') = Some d
             \<and> Status d = Status database'"
proof -
  let ?obj = "withStatus w database phase message configMapRef extensionsReady"
  from assms have "Status_Update w ?obj = (None, w')" and d': "database' = ?obj"
    by (auto simp: updateStatus_unfold split: prod.splits option.splits)
  from Status_Update_stored [OF this(1)] show ?thesis
    unfolding d' by (simp add: withStatus_def)
qed

text \<open>
  C7. \<open>Reconcile\<close> calls \<open>updateStatus\<close> with the phases \<open>Ready\<close>, \<open>Configuring\<close> and
  \<open>Error\<close> only. For each of them, and for a resource that has at most one condition of
  type \<open>Ready\<close> before the call, the resource has exactly one afterwards: its reason is
  the phase, its message is the status message, and its status is true for the phase
  \<open>Ready\<close> and false for the other two. An existing \<open>Ready\<close> condition is overwritten
  where it stands (the list keeps its length and its other conditions), a missing one is
  appended; and when the status write succeeds, the stored resource carries this status.
\<close>

theorem updateStatus_one_Ready_condition:
  assumes phase: "phase = ''Ready'' \<or> phase = ''Configuring'' \<or> phase = ''Error''"
      and one: "length (filter (\<lambda>c. cond_Type c = ''Ready'') (Conditions (Status database))) \<le> 1"
      and run: "updateStatus w database phase message configMapRef extensionsReady = (r, database', w')"
  shows "(\<exists>c. filter (\<lambda>c. cond_Type c = ''Ready'') (Conditions (Status database')) = [c]
            \<and> cond_Reason c = phase \<and> cond_Message c = message
            \<and> cond_Status c = (if phase = ''Ready'' then ConditionTrue else ConditionFalse))
       \<and> filter (\<lambda>c. cond_Type c \<noteq> ''Ready'') (Conditions (Status database'))
           = filter (\<lambda>c. cond_Type c \<noteq> ''Ready'') (Conditions (Status database))
       \<and> length (Conditions (Status database'))
           = (if \<exists>c \<in> set (Conditions (Status database)). cond_Type c = ''Ready''
              then length (Conditions (Status database))
              else length (Conditions (Status database)) + 1)
       \<and> Phase (Status database') = phase \<and> Message (Status database') = message
       \<and> (\<forall>res. r = Inr res \<longrightarrow>
            (\<exists>d. find (is_named (Namespace database) (Name database)) (databases w') = Some d
                 \<and> Status d = Status database'))"
proof -
  let ?obj = "withStatus w database phase message configMapRef extensionsReady"
  have obj: "database' = ?obj"
    using run updateStatus_object [of w database phase message configMapRef extensionsReady] by simp
  have ready: "cond_Type (readyCondition w phase message) = ''Ready''"
    by (simp add: readyCondition_def)
  have a: "filter (\<lambda>c. cond_Type c = ''Ready'') (Conditions (Status database')) = [readyCondition w phase message]"
    unfolding obj using one by (rule withStatus_ready_conditions)
  have b: "cond_Reason (readyCondition w phase message) = phase"
          "cond_Message (readyCondition w phase message) = message"
          "cond_Status (readyCondition w phase message) = (if phase = ''Ready'' then ConditionTrue else ConditionFalse)"
    using phase by (auto simp: readyCondition_def)
  have c: "filter (\<lambda>c. cond_Type c \<noteq> ''Ready'') (Conditions (Status database'))
           = filter (\<lambda>c. cond_Type c \<noteq> ''Ready'') (Conditions (Status database))"
    unfolding obj withStatus_def by (simp add: replaceReady_others ready)
  have d: "length (Conditions (Status database'))
           = (if \<exists>c \<in> set (Conditions (Status database)). cond_Type c = ''Ready''
              then length (Conditions (Status database))
              else length (Conditions (Status database)) + 1)"
    unfolding obj withStatus_def by (simp add: replaceReady_length replaceReady_found)
  have e: "Phase (Status database') = phase \<and> Message (Status database') = message"
    unfolding obj withStatus_def by simp
  have f: "\<forall>res. r = Inr res \<longrightarrow>
            (\<exists>d. find (is_named (Namespace database) (Name database)) (databases w') = Some d
                 \<and> Status d = Status database')"
    using run updateStatus_persisted by blast
  from a b c d e f show ?thesis by simp
qed

text \<open>
  The resource \<open>production\<close> of the example cluster is \<open>Ready\<close> and is moved to
  \<open>Configuring\<close>: its one \<open>Ready\<close> condition is replaced by a false one, and stored.
\<close>

theorem updateStatus_one_Ready_condition_witness:
  "length (filter (\<lambda>c. cond_Type c = ''Ready'') (Conditions (Status production))) \<le> 1
   \<and> (\<exists>r database' w'.
        updateStatus cluster production ''Configuring'' ''Setting up required database extensions'' '''' False
          = (r, database', w')
        \<and> r = Inr \<lparr>RequeueAfter = 30\<rparr>
        \<and> (\<exists>c. filter (\<lambda>c. cond_Type c = ''Ready'') (Conditions (Status database')) = [c]
               \<and> cond_Reason c = ''Configuring''
               \<and> cond_Message c = ''Setting up required database extensions''
               \<and> cond_Status c = ConditionFalse)
        \<and> length (Conditions (Status database')) = 1
        \<and> (\<exists>d. find (is_named ''monitoring'' ''production'') (databases w') = Some d
               \<and> Phase (Status d) = ''Configuring''))"
proof -
  obtain r database' w' where run:
    "updateStatus cluster production ''Configuring'' ''Setting up required database extensions'' '''' False
       = (r, database', w')"
    by (metis prod_cases3)
  have one: "length (filter (\<lambda>c. cond_Type c = ''Ready'') (Conditions (Status production))) \<le> 1"
    by (simp add: production_def)
  have stored: "\<exists>d \<in> set (databases cluster). is_named ''monitoring'' ''production'' d"
    by (simp add: cluster_fields is_named_def example_names)
  have r: "r = Inr \<lparr>RequeueAfter = 30\<rparr>"
    using run stored
    by (auto simp: updateStatus_unfold Status_Update_cases cluster_fields withStatus_def
          example_names requeueFor_def split: prod.splits)
  have before: "length (Conditions (Status production)) = 1"
               "\<exists>c \<in> set (Conditions (Status production)). cond_Type c = ''Ready''"
    by (simp_all add: production_def)
  have main: "(\<exists>c. filter (\<lambda>c. cond_Type c = ''Ready'') (Conditions (Status database')) = [c]
               \<and> cond_Reason c = ''Configuring''
               \<and> cond_Message c = ''Setting up required database extensions''
               \<and> cond_Status c = ConditionFalse)
        \<and> length (Conditions (Status database')) = 1
        \<and> (\<exists>d. find (is_named ''monitoring'' ''production'') (databases w') = Some d
               \<and> Phase (Status d) = ''Configuring'')"
    using updateStatus_one_Ready_condition [OF _ one run] by (auto simp add: r example_names before)
  show ?thesis
    using one run r main by blast
qed

section \<open>The user name and the grant step\<close>

lemma ExecContext_statements:
  "sql_statements (snd (ExecContext w url stmt)) = sql_statements w @ [(url, stmt)]"
  by (simp add: ExecContext_def)

lemma createExtensionAsSuperuser_cases:
  "createExtensionAsSuperuser w superuserURL extName database =
     (if sql_open w superuserURL \<noteq> None \<or> sql_ping w superuserURL \<noteq> None then (False, w)
      else if sql_exec w (sql_statements w) superuserURL (''CREATE EXTENSION IF NOT EXISTS '' @ extName) \<noteq> None
      then (False, w\<lparr>sql_statements := sql_statements w @
                       [(superuserURL, ''CREATE EXTENSION IF NOT EXISTS '' @ extName)]\<rparr>)
      else (True, w\<lparr>sql_statements := sql_statements w @
                       (superuserURL, ''CREATE EXTENSION IF NOT EXISTS '' @ extName) #
                       (if extractUsernameFromURL (spec_URL (Spec database)) = '''' \<or>
                           extractUsernameFromURL (spec_URL (Spec database)) = ''postgres''
                        then []
                        else grantStatements superuserURL (extractUsernameFromURL (spec_URL (Spec database))))\<rparr>))"
  unfolding createExtensionAsSuperuser_def ExecContext_def Let_def grantStatements_def
  by (simp split: option.split)

end
